theory Spec2Isabelle
  imports Complex_Main "HOL-Library.Multiset"
begin

section \<open>Host data touched by the add-on\<close>

text \<open>
  The add-on reads and writes objects owned by the host application. Host objects have
  identity: a Python list of keyframes is a list of references, and an assignment to
  \<open>keyframe.frame_number\<close> is visible through every reference to that keyframe.
  Keyframes therefore live in a store indexed by references, and layers hold references.
  Python integers are unbounded, so frame numbers are of type \<open>int\<close>.
\<close>

datatype py_error = IndexError | ValueError | AttributeError

record GPencilFrame =
  frame_number :: int
  select :: bool
  tag :: bool
  keyframe_type :: string

type_synonym frame_ref = nat

type_synonym frame_store = "frame_ref \<Rightarrow> GPencilFrame"

record GPencilLayer =
  frames :: "frame_ref list"
  lock :: bool
  layer_select :: bool
  hide :: bool

text \<open>
  \<open>gp.layers\<close> is an ordered collection; a layer is identified by its position in it and
  \<open>gp.layers.active\<close> is either \<open>None\<close> or one of the layers of the collection.
  \<open>gp.materials\<close> is the list of material slots of the drawing, each empty or holding the
  address of a material datablock, and \<open>gp.material_palette\<close> is the identifier of its
  active palette.
\<close>

record GreasePencil =
  layers :: "GPencilLayer list"
  active :: "nat option"
  gp_materials :: "nat option list"
  material_palette :: string

section \<open>animation/core.py\<close>

subsection \<open>Layer and frame traits\<close>

text \<open>The two \<open>enum.Flag\<close> classes; a flag value is the set of its members.\<close>

datatype LayerTrait = ACTIVE | UNLOCKED | SELECTED

datatype FrameTrait = FSELECTED | TAG

type_synonym LayerTraits = "LayerTrait set"

type_synonym FrameTraits = "FrameTrait set"


definition frame_options_to_traits :: "bool \<Rightarrow> bool \<Rightarrow> FrameTraits" where
  "frame_options_to_traits selected onion_tag =
     (let traits = {};
          traits = (if selected then traits \<union> {FSELECTED} else traits);
          traits = (if onion_tag then traits \<union> {TAG} else traits)
      in traits)"

subsection \<open>shift_keyframes\<close>










definition least_frame_number :: "frame_store \<Rightarrow> frame_ref list \<Rightarrow> int" where
  "least_frame_number st keyframes = Min (set (map (\<lambda>k. frame_number (st k)) keyframes))"



subsection \<open>get_gp_layers and get_gp_keyframes\<close>

text \<open>
  \<open>layer == gp.layers.active\<close> compares host objects by identity; a layer is identified by
  its position in \<open>gp.layers\<close>. The comparison is false for every layer when there is no
  active layer.
\<close>

definition get_gp_layers :: "GreasePencil \<Rightarrow> LayerTraits \<Rightarrow> (nat \<times> GPencilLayer) list" where
  "get_gp_layers gp layer_filter =
     filter (\<lambda>(i, layer).
               (ACTIVE \<notin> layer_filter \<or> Some i = active gp)
             \<and> (UNLOCKED \<notin> layer_filter \<or> \<not> lock layer)
             \<and> (SELECTED \<notin> layer_filter \<or> layer_select layer))
       (enumerate 0 (layers gp))"

text \<open>\<open>sorted(..., key=...)\<close> is a stable sort, as \<open>sort_key\<close> is.\<close>

definition get_gp_keyframes ::
  "frame_store \<Rightarrow> GreasePencil \<Rightarrow> LayerTraits \<Rightarrow> FrameTraits \<Rightarrow> int \<Rightarrow> int \<Rightarrow> frame_ref list" where
  "get_gp_keyframes st gp layer_filter frame_filter frame_min frame_max =
     sort_key (\<lambda>f. frame_number (st f))
       (concat (map (\<lambda>(i, layer).
                  filter (\<lambda>f. (frame_min \<le> frame_number (st f) \<and> frame_number (st f) \<le> frame_max)
                             \<and> (FSELECTED \<notin> frame_filter \<or> select (st f))
                             \<and> (TAG \<notin> frame_filter \<or> tag (st f)))
                    (frames layer))
          (get_gp_layers gp layer_filter)))"


subsection \<open>shift_gp_keyframes\<close>


subsection \<open>gp_compute_list_of_frames_to_duplicate\<close>

text \<open>
  The first loop of the function: it advances \<open>i\<close> while the target is before the first
  key, and \<open>frame_numbers[i]\<close> raises IndexError once \<open>i\<close> reaches the end of the list.
\<close>

function skip_targets :: "int list \<Rightarrow> int \<Rightarrow> nat \<Rightarrow> py_error + nat" where
  "skip_targets frame_numbers first_key i =
     (if \<not> i < length frame_numbers then Inl IndexError
      else if frame_numbers ! i < first_key then skip_targets frame_numbers first_key (i + 1)
      else Inr i)"
  by pat_completeness auto
termination
  by (relation "measure (\<lambda>(frame_numbers, first_key, i). length frame_numbers - i)") auto

text \<open>
  The second loop. \<open>gpl.frames[j]\<close> would raise IndexError for \<open>j\<close> out of range; the loop
  only advances \<open>j\<close> under the guard \<open>j + 1 < len(gpl.frames)\<close>.
\<close>

function duplicate_loop ::
  "frame_store \<Rightarrow> frame_ref list \<Rightarrow> int list \<Rightarrow> nat \<Rightarrow> nat \<Rightarrow> (frame_ref \<times> int) list
     \<Rightarrow> py_error + (frame_ref \<times> int) list" where
  "duplicate_loop st fs frame_numbers i j new_frames_list =
     (if \<not> i < length frame_numbers then Inr new_frames_list
      else if \<not> j < length fs then Inl IndexError
      else if frame_numbers ! i = frame_number (st (fs ! j))
        then duplicate_loop st fs frame_numbers (i + 1) j new_frames_list
      else if j + 1 < length fs
        then (if frame_numbers ! i < frame_number (st (fs ! (j + 1)))
              then duplicate_loop st fs frame_numbers (i + 1) j
                     (new_frames_list @ [(fs ! j, frame_numbers ! i)])
              else duplicate_loop st fs frame_numbers i (j + 1) new_frames_list)
      else duplicate_loop st fs frame_numbers (i + 1) j
             (new_frames_list @ [(fs ! j, frame_numbers ! i)]))"
  by pat_completeness auto
termination
  by (relation "measure (\<lambda>(st, fs, frame_numbers, i, j, acc).
                   (length frame_numbers - i) + (length fs - j))") auto

definition gp_compute_list_of_frames_to_duplicate ::
  "frame_store \<Rightarrow> GPencilLayer \<Rightarrow> int list \<Rightarrow> py_error + (frame_ref \<times> int) list" where
  "gp_compute_list_of_frames_to_duplicate st gpl frame_numbers =
     (if length (frames gpl) = 0 then Inr []
      else (case skip_targets frame_numbers (frame_number (st (frames gpl ! 0))) 0 of
              Inl e \<Rightarrow> Inl e
            | Inr i \<Rightarrow> duplicate_loop st (frames gpl) frame_numbers i 0 []))"

declare skip_targets.simps [simp del] duplicate_loop.simps [simp del]

text \<open>The filters as the specification words them.\<close>

definition layer_matches :: "GreasePencil \<Rightarrow> LayerTraits \<Rightarrow> nat \<Rightarrow> bool" where
  "layer_matches gp layer_filter i =
     (i < length (layers gp)
      \<and> (ACTIVE \<in> layer_filter \<longrightarrow> active gp = Some i)
      \<and> (UNLOCKED \<in> layer_filter \<longrightarrow> \<not> lock (layers gp ! i))
      \<and> (SELECTED \<in> layer_filter \<longrightarrow> layer_select (layers gp ! i)))"

definition frame_matches :: "frame_store \<Rightarrow> FrameTraits \<Rightarrow> int \<Rightarrow> int \<Rightarrow> frame_ref \<Rightarrow> bool" where
  "frame_matches st frame_filter frame_min frame_max f =
     (frame_min \<le> frame_number (st f) \<and> frame_number (st f) \<le> frame_max
      \<and> (FSELECTED \<in> frame_filter \<longrightarrow> select (st f))
      \<and> (TAG \<in> frame_filter \<longrightarrow> tag (st f)))"

text \<open>Host invariant: every keyframe lies on one layer, once.\<close>

definition frames_owned_once :: "GreasePencil \<Rightarrow> bool" where
  "frames_owned_once gp = distinct (concat (map frames (layers gp)))"

text \<open>A concrete store used to run the functions: keyframe \<open>r\<close> sits on frame \<open>r\<close>.\<close>

definition frames_at_own_number :: frame_store where
  "frames_at_own_number =
     (\<lambda>r. \<lparr>frame_number = int r, select = False, tag = False, keyframe_type = ''KEYFRAME''\<rparr>)"

text \<open>
  The keyframe visible at frame \<open>t\<close>: the last keyframe of the layer whose frame number is
  at most \<open>t\<close>.
\<close>

definition visible_keyframe :: "frame_store \<Rightarrow> GPencilLayer \<Rightarrow> int \<Rightarrow> frame_ref" where
  "visible_keyframe st gpl t = last (filter (\<lambda>f. frame_number (st f) \<le> t) (frames gpl))"

text \<open>A layer with keyframes on frames 3 and 6.\<close>

definition one_layer :: GPencilLayer where
  "one_layer = \<lparr>frames = [3, 6], lock = False, layer_select = False, hide = False\<rparr>"



text \<open>A drawing with an unlocked, selected layer and a locked, active one.\<close>

definition two_layers :: GreasePencil where
  "two_layers =
     \<lparr>layers = [\<lparr>frames = [3, 4, 7], lock = False, layer_select = True, hide = False\<rparr>,
                \<lparr>frames = [5, 12], lock = True, layer_select = False, hide = False\<rparr>],
      active = Some 1, gp_materials = [], material_palette = ''-''\<rparr>"


text \<open>A layer whose keyframes are not in ascending order.\<close>

definition unsorted_layer :: GPencilLayer where
  "unsorted_layer = \<lparr>frames = [10, 6], lock = False, layer_select = False, hide = False\<rparr>"

section \<open>materials/core.py\<close>

subsection \<open>are_similar_gp_materials\<close>

text \<open>
  Colour components are Python floats. A float is a finite number, an infinity or NaN, and
  \<open>==\<close> on floats is false whenever one side is NaN, also when both are.
\<close>

datatype py_float = Finite real | PosInf | NegInf | NaN

definition float_eq :: "py_float \<Rightarrow> py_float \<Rightarrow> bool" where
  "float_eq a b = (a \<noteq> NaN \<and> b \<noteq> NaN \<and> a = b)"

text \<open>
  The values of the compared attributes: booleans, enumeration identifiers and colour
  arrays. A \<open>bpy_prop_array\<close> is sliced into a sequence of fresh floats before the
  comparison, so two arrays are compared component by component with \<open>==\<close> on floats.
\<close>

datatype attr_value = BoolV bool | EnumV string | ArrayV "py_float list"

fun attr_ne :: "attr_value \<Rightarrow> attr_value \<Rightarrow> bool" where
  "attr_ne (BoolV a) (BoolV b) = (a \<noteq> b)"
| "attr_ne (EnumV a) (EnumV b) = (a \<noteq> b)"
| "attr_ne (ArrayV a) (ArrayV b) = (\<not> list_all2 float_eq a b)"
| "attr_ne _ _ = True"

record MaterialGPencilStyle =
  show_stroke :: bool
  mode :: string
  stroke_style :: string
  color :: "py_float list"
  use_stroke_holdout :: bool
  use_overlap_strokes :: bool
  show_fill :: bool
  fill_style :: string
  fill_color :: "py_float list"
  use_fill_holdout :: bool

text \<open>
  \<open>material.grease_pencil\<close> is \<open>None\<close> unless the material has grease pencil settings,
  and \<open>material.is_grease_pencil\<close> tells whether it has them. \<open>library\<close> is \<open>None\<close> for a
  material local to the file.
\<close>

record Material =
  name :: string
  library :: "string option"
  grease_pencil :: "MaterialGPencilStyle option"

definition is_grease_pencil :: "Material \<Rightarrow> bool" where
  "is_grease_pencil mat = (grease_pencil mat \<noteq> None)"

definition gp_material_comparison_attributes :: "string list" where
  "gp_material_comparison_attributes =
     [''show_stroke'', ''mode'', ''stroke_style'', ''color'', ''use_stroke_holdout'',
      ''use_overlap_strokes'', ''show_fill'', ''fill_style'', ''fill_color'',
      ''use_fill_holdout'']"

definition getattr :: "MaterialGPencilStyle \<Rightarrow> string \<Rightarrow> py_error + attr_value" where
  "getattr gp attr =
     (if attr = ''show_stroke'' then Inr (BoolV (show_stroke gp))
      else if attr = ''mode'' then Inr (EnumV (mode gp))
      else if attr = ''stroke_style'' then Inr (EnumV (stroke_style gp))
      else if attr = ''color'' then Inr (ArrayV (color gp))
      else if attr = ''use_stroke_holdout'' then Inr (BoolV (use_stroke_holdout gp))
      else if attr = ''use_overlap_strokes'' then Inr (BoolV (use_overlap_strokes gp))
      else if attr = ''show_fill'' then Inr (BoolV (show_fill gp))
      else if attr = ''fill_style'' then Inr (EnumV (fill_style gp))
      else if attr = ''fill_color'' then Inr (ArrayV (fill_color gp))
      else if attr = ''use_fill_holdout'' then Inr (BoolV (use_fill_holdout gp))
      else Inl AttributeError)"

fun compare_attributes ::
  "MaterialGPencilStyle \<Rightarrow> MaterialGPencilStyle \<Rightarrow> string list \<Rightarrow> py_error + bool" where
  "compare_attributes gpA gpB [] = Inr True"
| "compare_attributes gpA gpB (attr # attrs) =
     (case getattr gpA attr of
        Inl e \<Rightarrow> Inl e
      | Inr attrA \<Rightarrow>
          (case getattr gpB attr of
             Inl e \<Rightarrow> Inl e
           | Inr attrB \<Rightarrow>
               if attr_ne attrA attrB then Inr False else compare_attributes gpA gpB attrs))"

definition are_similar_gp_materials :: "Material \<Rightarrow> Material \<Rightarrow> py_error + bool" where
  "are_similar_gp_materials materialA materialB =
     (if \<not> is_grease_pencil materialA \<or> \<not> is_grease_pencil materialB then Inl ValueError
      else (case (grease_pencil materialA, grease_pencil materialB) of
              (Some gpA, Some gpB) \<Rightarrow> compare_attributes gpA gpB gp_material_comparison_attributes
            | _ \<Rightarrow> Inl AttributeError))"

text \<open>
  Agreement on the ten compared attributes, written out, and the absence of NaN from a
  colour array.
\<close>

definition same_compared_attributes :: "MaterialGPencilStyle \<Rightarrow> MaterialGPencilStyle \<Rightarrow> bool" where
  "same_compared_attributes a b =
     (show_stroke a = show_stroke b \<and> mode a = mode b \<and> stroke_style a = stroke_style b
      \<and> color a = color b \<and> use_stroke_holdout a = use_stroke_holdout b
      \<and> use_overlap_strokes a = use_overlap_strokes b \<and> show_fill a = show_fill b
      \<and> fill_style a = fill_style b \<and> fill_color a = fill_color b
      \<and> use_fill_holdout a = use_fill_holdout b)"

definition no_nan :: "py_float list \<Rightarrow> bool" where
  "no_nan xs = (NaN \<notin> set xs)"

text \<open>Concrete materials used to run the functions.\<close>

definition black_line :: MaterialGPencilStyle where
  "black_line =
     \<lparr>show_stroke = True, mode = ''LINE'', stroke_style = ''SOLID'',
      color = [Finite 0, Finite 0, Finite 0, Finite 1],
      use_stroke_holdout = False, use_overlap_strokes = False, show_fill = False,
      fill_style = ''SOLID'', fill_color = [Finite (1 / 2), Finite (1 / 2), Finite (1 / 2), Finite 1],
      use_fill_holdout = False\<rparr>"

definition red_line :: MaterialGPencilStyle where
  "red_line = black_line\<lparr>color := [Finite 1, Finite 0, Finite 0, Finite 1]\<rparr>"

definition nan_line :: MaterialGPencilStyle where
  "nan_line = black_line\<lparr>color := [NaN, Finite 0, Finite 0, Finite 1]\<rparr>"

definition gp_material :: "string \<Rightarrow> MaterialGPencilStyle \<Rightarrow> Material" where
  "gp_material n style = \<lparr>name = n, library = None, grease_pencil = Some style\<rparr>"

definition plain_material :: "string \<Rightarrow> Material" where
  "plain_material n = \<lparr>name = n, library = None, grease_pencil = None\<rparr>"

subsection \<open>The material_palette accessors\<close>

text \<open>
  The registry is a Python dictionary from palette names to lists of materials; its keys are
  kept in insertion order, which \<open>list(material_palettes)\<close> exposes. Materials are
  referred to by the address of their datablock.
\<close>

type_synonym mat_ref = nat

type_synonym MaterialPalettesRegistry = "(string \<times> mat_ref list) list"

definition DEFAULT_PALETTE_ID :: string where
  "DEFAULT_PALETTE_ID = ''-''"

text \<open>Python list indexing: a negative index counts from the end.\<close>

definition list_index :: "'a list \<Rightarrow> int \<Rightarrow> py_error + 'a" where
  "list_index xs i =
     (if 0 \<le> i \<and> i < int (length xs) then Inr (xs ! nat i)
      else if i < 0 \<and> - int (length xs) \<le> i then Inr (xs ! nat (int (length xs) + i))
      else Inl IndexError)"

text \<open>\<open>list.index\<close>: the first position of a value, ValueError (here \<open>None\<close>) when absent.\<close>

fun index_of :: "'a list \<Rightarrow> 'a \<Rightarrow> nat option" where
  "index_of [] x = None"
| "index_of (y # ys) x = (if y = x then Some 0 else map_option Suc (index_of ys x))"

text \<open>
  The accessors of \<open>GreasePencil.material_palette\<close> read and write the custom property
  \<open>self["material_palette_str"]\<close> of the datablock.
\<close>

type_synonym id_properties = "string \<rightharpoonup> string"

definition set_material_palette_value ::
  "MaterialPalettesRegistry \<Rightarrow> id_properties \<Rightarrow> int \<Rightarrow> py_error + id_properties" where
  "set_material_palette_value material_palettes self index =
     (case list_index (map fst material_palettes) index of
        Inl e \<Rightarrow> Inl e
      | Inr palette \<Rightarrow> Inr (self(''material_palette_str'' \<mapsto> palette)))"

definition get_material_palette_value ::
  "MaterialPalettesRegistry \<Rightarrow> id_properties \<Rightarrow> int \<times> id_properties" where
  "get_material_palette_value material_palettes self =
     (case self ''material_palette_str'' of
        Some stored \<Rightarrow>
          (case index_of (map fst material_palettes) stored of
             Some i \<Rightarrow> (int i, self)
           | None \<Rightarrow> (0, self(''material_palette_str'' \<mapsto> DEFAULT_PALETTE_ID)))
      | None \<Rightarrow> (0, self))"

text \<open>A registry with two palettes besides the default one.\<close>

definition two_palettes :: MaterialPalettesRegistry where
  "two_palettes = [(''-'', []), (''Day'', [1, 2]), (''Night'', [3])]"

section \<open>Operators\<close>




subsection \<open>GPENCIL_OT_quick_edit_strokes_duplicate.modal (drawing/ops.py)\<close>


subsection \<open>TRANSFORM_OT_keyframes_shift (animation/ops.py)\<close>





subsection \<open>ANIM_OT_keyframes_flip.execute (animation/ops.py)\<close>

















section \<open>Properties of shift_keyframes\<close>












section \<open>Properties of get_gp_keyframes\<close>

lemma set_get_gp_layers:
  "set (get_gp_layers gp lf) = {(i, layers gp ! i) | i. layer_matches gp lf i}"
  by (auto simp: get_gp_layers_def layer_matches_def in_set_enumerate_eq)

lemma set_get_gp_keyframes:
  "f \<in> set (get_gp_keyframes st gp lf ff lo hi) \<longleftrightarrow>
     (\<exists>i. layer_matches gp lf i \<and> f \<in> set (frames (layers gp ! i)) \<and> frame_matches st ff lo hi f)"
  unfolding get_gp_keyframes_def
  by (auto simp: set_get_gp_layers frame_matches_def)

lemma sorted_get_gp_keyframes:
  "sorted (map (\<lambda>f. frame_number (st f)) (get_gp_keyframes st gp lf ff lo hi))"
  by (simp add: get_gp_keyframes_def)

lemma distinct_concat_filter_sub:
  "distinct (concat (map g xs)) \<Longrightarrow> distinct (concat (map (\<lambda>x. filter (P x) (g x)) (filter Q xs)))"
  by (induction xs) auto

lemma concat_frames_enumerate:
  "concat (map (\<lambda>x. frames (snd x)) (enumerate n ls)) = concat (map frames ls)"
  by (induction ls arbitrary: n) auto

lemma distinct_get_gp_keyframes:
  assumes "frames_owned_once gp"
  shows "distinct (get_gp_keyframes st gp lf ff lo hi)"
proof -
  have "distinct (concat (map (\<lambda>x. frames (snd x)) (enumerate 0 (layers gp))))"
    using assms by (simp add: concat_frames_enumerate frames_owned_once_def)
  from distinct_concat_filter_sub [OF this]
  show ?thesis
    unfolding get_gp_keyframes_def get_gp_layers_def
    by (simp add: case_prod_unfold)
qed

text \<open>
  Claim C5. \<open>get_gp_keyframes\<close> returns exactly the keyframes that lie on a layer passing
  every flag of the layer filter (ACTIVE: the layer is the active one; UNLOCKED: it is not
  locked; SELECTED: it is selected), whose frame number lies between \<open>frame_min\<close> and
  \<open>frame_max\<close> and which pass every flag of the frame filter. The list is sorted by
  ascending frame number, and holds each keyframe once when every keyframe lies on one
  layer.
\<close>

theorem get_gp_keyframes_spec:
  "(\<forall>f. f \<in> set (get_gp_keyframes st gp layer_filter frame_filter frame_min frame_max) \<longleftrightarrow>
         (\<exists>i. layer_matches gp layer_filter i \<and> f \<in> set (frames (layers gp ! i))
              \<and> frame_matches st frame_filter frame_min frame_max f))
   \<and> sorted (map (\<lambda>f. frame_number (st f))
        (get_gp_keyframes st gp layer_filter frame_filter frame_min frame_max))
   \<and> (frames_owned_once gp \<longrightarrow>
        distinct (get_gp_keyframes st gp layer_filter frame_filter frame_min frame_max))"
  using set_get_gp_keyframes sorted_get_gp_keyframes distinct_get_gp_keyframes by blast

theorem get_gp_keyframes_spec_witness:
  "frames_owned_once two_layers
   \<and> layer_matches two_layers {UNLOCKED} 0
   \<and> frame_matches frames_at_own_number {} 4 10 7
   \<and> 7 \<in> set (get_gp_keyframes frames_at_own_number two_layers {UNLOCKED} {} 4 10)
   \<and> 5 \<notin> set (get_gp_keyframes frames_at_own_number two_layers {UNLOCKED} {} 4 10)
   \<and> distinct (get_gp_keyframes frames_at_own_number two_layers {UNLOCKED} {} 4 10)"
proof -
  have o: "frames_owned_once two_layers"
    by (simp add: frames_owned_once_def two_layers_def)
  have l: "layer_matches two_layers {UNLOCKED} 0" and nl: "\<not> layer_matches two_layers {UNLOCKED} 1"
    by (simp_all add: layer_matches_def two_layers_def)
  have f: "frame_matches frames_at_own_number {} 4 10 7"
    by (simp add: frame_matches_def frames_at_own_number_def)
  have m: "7 \<in> set (frames (layers two_layers ! 0))"
    by (simp add: two_layers_def)
  have n5: "\<And>i. layer_matches two_layers {UNLOCKED} i \<Longrightarrow> 5 \<notin> set (frames (layers two_layers ! i))"
  proof -
    fix i assume a: "layer_matches two_layers {UNLOCKED} i"
    then have "i < 2" by (simp add: layer_matches_def two_layers_def)
    then have "i = 0 \<or> i = 1" by arith
    with a nl have "i = 0" by blast
    then show "5 \<notin> set (frames (layers two_layers ! i))" by (simp add: two_layers_def)
  qed
  note s = get_gp_keyframes_spec [of frames_at_own_number two_layers "{UNLOCKED}" "{}" 4 10]
  from s l m f have a: "7 \<in> set (get_gp_keyframes frames_at_own_number two_layers {UNLOCKED} {} 4 10)"
    by blast
  from s n5 have b: "5 \<notin> set (get_gp_keyframes frames_at_own_number two_layers {UNLOCKED} {} 4 10)"
    by blast
  from s o have c: "distinct (get_gp_keyframes frames_at_own_number two_layers {UNLOCKED} {} 4 10)"
    by blast
  show ?thesis using o l f a b c by blast
qed



section \<open>Properties of shift_gp_keyframes\<close>




lemma least_frame_number_ge:
  "ks \<noteq> [] \<Longrightarrow> \<forall>k \<in> set ks. lo \<le> frame_number (st k) \<Longrightarrow> lo \<le> least_frame_number st ks"
  by (simp add: least_frame_number_def)





section \<open>Properties of gp_compute_list_of_frames_to_duplicate\<close>

lemma skip_targets_eq:
  "skip_targets tn a i =
     (if \<forall>t \<in> set (drop i tn). t < a then Inl IndexError
      else Inr (i + length (takeWhile (\<lambda>t. t < a) (drop i tn))))"
proof (induction tn a i rule: skip_targets.induct)
  case (1 tn a i)
  show ?case
  proof (cases "i < length tn")
    case False
    then show ?thesis by (subst skip_targets.simps) simp
  next
    case True
    then have d: "drop i tn = tn ! i # drop (Suc i) tn"
      by (simp add: Cons_nth_drop_Suc)
    show ?thesis
    proof (cases "tn ! i < a")
      case True
      with \<open>i < length tn\<close> 1 d show ?thesis by (subst skip_targets.simps) simp
    next
      case False
      with \<open>i < length tn\<close> d show ?thesis by (subst skip_targets.simps) auto
    qed
  qed
qed

lemma filter_ge_sorted:
  "sorted tn \<Longrightarrow> filter (\<lambda>t. a \<le> t) tn = dropWhile (\<lambda>t. t < a) (tn :: int list)"
proof (induction tn)
  case Nil
  then show ?case by simp
next
  case (Cons x tn)
  show ?case
  proof (cases "x < a")
    case True
    with Cons show ?thesis by simp
  next
    case False
    with Cons.prems have "\<forall>t \<in> set tn. a \<le> t" by auto
    then have "filter (\<lambda>t. a \<le> t) tn = tn" by (simp add: filter_id_conv)
    with False show ?thesis by simp
  qed
qed

lemma visible_last_filter:
  assumes s: "sorted (map (\<lambda>f. frame_number (st f)) fs)" and j: "j < length fs"
    and le: "frame_number (st (fs ! j)) \<le> t"
    and nx: "j + 1 < length fs \<longrightarrow> t < frame_number (st (fs ! (j + 1)))"
  shows "filter (\<lambda>f. frame_number (st f) \<le> t) fs = take (j + 1) fs"
proof -
  have lo: "\<forall>f \<in> set (take (j + 1) fs). frame_number (st f) \<le> t"
  proof
    fix f assume "f \<in> set (take (j + 1) fs)"
    then obtain n where n: "n < j + 1" "n < length fs" "f = fs ! n"
      by (auto simp: in_set_conv_nth)
    then have "frame_number (st (fs ! n)) \<le> frame_number (st (fs ! j))"
      using s j sorted_nth_mono [of "map (\<lambda>f. frame_number (st f)) fs" n j] by simp
    with le n show "frame_number (st f) \<le> t" by simp
  qed
  have hi: "\<forall>f \<in> set (drop (j + 1) fs). \<not> frame_number (st f) \<le> t"
  proof
    fix f assume "f \<in> set (drop (j + 1) fs)"
    then obtain m where "m < length fs - (j + 1)" "f = fs ! (j + 1 + m)"
      by (auto simp: in_set_conv_nth)
    then have "j + 1 \<le> j + 1 + m \<and> j + 1 + m < length fs \<and> f = fs ! (j + 1 + m)"
      by simp
    then obtain n where n: "j + 1 \<le> n" "n < length fs" "f = fs ! n"
      by blast
    then have "frame_number (st (fs ! (j + 1))) \<le> frame_number (st (fs ! n))"
      using s sorted_nth_mono [of "map (\<lambda>f. frame_number (st f)) fs" "j + 1" n] by simp
    with nx n show "\<not> frame_number (st f) \<le> t" by simp
  qed
  have "filter (\<lambda>f. frame_number (st f) \<le> t) (take (j + 1) fs @ drop (j + 1) fs) = take (j + 1) fs"
    unfolding filter_append using lo hi by (simp add: filter_id_conv filter_empty_conv)
  then show ?thesis by simp
qed

lemma visible_at:
  assumes "sorted (map (\<lambda>f. frame_number (st f)) fs)" and "j < length fs"
    and "frame_number (st (fs ! j)) \<le> t"
    and "j + 1 < length fs \<longrightarrow> t < frame_number (st (fs ! (j + 1)))"
  shows "last (filter (\<lambda>f. frame_number (st f) \<le> t) fs) = fs ! j"
  using visible_last_filter [OF assms] assms(2)
  by (simp add: take_Suc_conv_app_nth)

lemma no_key_at:
  assumes "sorted (map (\<lambda>f. frame_number (st f)) fs)" and "j < length fs"
    and "frame_number (st (fs ! j)) < t"
    and "j + 1 < length fs \<longrightarrow> t < frame_number (st (fs ! (j + 1)))"
  shows "t \<notin> (\<lambda>f. frame_number (st f)) ` set fs"
proof
  assume "t \<in> (\<lambda>f. frame_number (st f)) ` set fs"
  then obtain f where f: "f \<in> set fs" "frame_number (st f) = t" by auto
  have le: "frame_number (st (fs ! j)) \<le> t" using assms(3) by simp
  have "f \<in> set (filter (\<lambda>f. frame_number (st f) \<le> t) fs)" using f by simp
  then have "f \<in> set (take (j + 1) fs)"
    using visible_last_filter [OF assms(1,2) le assms(4)] by simp
  then obtain n where n: "n < j + 1" "n < length fs" "f = fs ! n"
    by (auto simp: in_set_conv_nth)
  then have "frame_number (st (fs ! n)) \<le> frame_number (st (fs ! j))"
    using assms(1,2) sorted_nth_mono [of "map (\<lambda>f. frame_number (st f)) fs" n j] by simp
  with n f assms(3) show False by simp
qed

lemma duplicate_loop_eq:
  "sorted (map (\<lambda>f. frame_number (st f)) fs) \<Longrightarrow> sorted tn \<Longrightarrow> j < length fs \<Longrightarrow>
   \<forall>t \<in> set (drop i tn). frame_number (st (fs ! j)) \<le> t \<Longrightarrow>
   duplicate_loop st fs tn i j acc =
     Inr (acc @ map (\<lambda>t. (last (filter (\<lambda>f. frame_number (st f) \<le> t) fs), t))
                  (filter (\<lambda>t. t \<notin> (\<lambda>f. frame_number (st f)) ` set fs) (drop i tn)))"
proof (induction st fs tn i j acc rule: duplicate_loop.induct)
  case (1 st fs tn i j acc)
  note sf = \<open>sorted (map (\<lambda>f. frame_number (st f)) fs)\<close> and stn = \<open>sorted tn\<close>
    and j = \<open>j < length fs\<close>
  show ?case
  proof (cases "i < length tn")
    case False
    then show ?thesis by (subst duplicate_loop.simps) simp
  next
    case True
    then have d: "drop i tn = tn ! i # drop (Suc i) tn"
      by (simp add: Cons_nth_drop_Suc)
    have le: "frame_number (st (fs ! j)) \<le> tn ! i"
      using "1.prems"(4) d by simp
    have tl: "\<forall>t \<in> set (drop (i + 1) tn). frame_number (st (fs ! j)) \<le> t"
      using "1.prems"(4) d by simp
    have "sorted (drop i tn)" using stn by (rule sorted_wrt_drop)
    then have up: "\<forall>t \<in> set (drop (Suc i) tn). tn ! i \<le> t"
      unfolding d by simp
    show ?thesis
    proof (cases "tn ! i = frame_number (st (fs ! j))")
      case eq: True
      then have "tn ! i \<in> (\<lambda>f. frame_number (st f)) ` set fs"
        using j by (metis imageI nth_mem)
      moreover have "duplicate_loop st fs tn i j acc = duplicate_loop st fs tn (i + 1) j acc"
        using True j eq by (subst duplicate_loop.simps) simp
      ultimately show ?thesis
        using "1.IH"(1) [OF _ _ eq sf stn j tl] True j d by simp
    next
      case ne: False
      with le have lt: "frame_number (st (fs ! j)) < tn ! i" by simp
      show ?thesis
      proof (cases "j + 1 < length fs \<and> \<not> tn ! i < frame_number (st (fs ! (j + 1)))")
        case adv: True
        then have inv: "\<forall>t \<in> set (drop i tn). frame_number (st (fs ! (j + 1))) \<le> t"
          unfolding d using up by auto
        have "duplicate_loop st fs tn i j acc = duplicate_loop st fs tn i (j + 1) acc"
          using True j ne adv by (subst duplicate_loop.simps) simp
        then show ?thesis
          using "1.IH"(3) [OF _ _ ne _ _ sf stn _ inv] True j adv by simp
      next
        case stay: False
        then have nx: "j + 1 < length fs \<longrightarrow> tn ! i < frame_number (st (fs ! (j + 1)))"
          by blast
        have v: "last (filter (\<lambda>f. frame_number (st f) \<le> tn ! i) fs) = fs ! j"
          using sf j le nx by (rule visible_at)
        have nk: "tn ! i \<notin> (\<lambda>f. frame_number (st f)) ` set fs"
          using sf j lt nx by (rule no_key_at)
        have step: "duplicate_loop st fs tn i j acc =
            duplicate_loop st fs tn (i + 1) j (acc @ [(fs ! j, tn ! i)])"
          using True j ne stay by (subst duplicate_loop.simps) auto
        show ?thesis
        proof (cases "j + 1 < length fs")
          case True
          with stay have "tn ! i < frame_number (st (fs ! (j + 1)))" by blast
          from "1.IH"(2) [OF _ _ ne True this sf stn j tl] \<open>i < length tn\<close> j
          show ?thesis unfolding step d using v nk by simp
        next
          case False
          from "1.IH"(4) [OF _ _ ne False sf stn j tl] \<open>i < length tn\<close> j
          show ?thesis unfolding step d using v nk by simp
        qed
      qed
    qed
  qed
qed

lemma duplicate_loop_returns:
  "j < length fs \<Longrightarrow> \<exists>r. duplicate_loop st fs tn i j acc = Inr r"
proof (induction st fs tn i j acc rule: duplicate_loop.induct)
  case (1 st fs tn i j acc)
  then show ?case by (subst duplicate_loop.simps) auto
qed

lemma sorted_last_greatest:
  "sorted (map K xs) \<Longrightarrow> x \<in> set xs \<Longrightarrow> (K x :: int) \<le> K (last xs)"
proof -
  assume s: "sorted (map K xs)" and x: "x \<in> set xs"
  then obtain n where n: "n < length xs" "x = xs ! n" by (auto simp: in_set_conv_nth)
  then have "xs \<noteq> []" by auto
  then have l: "last xs = xs ! (length xs - 1)" by (rule last_conv_nth)
  from s n have "map K xs ! n \<le> map K xs ! (length xs - 1)"
    by (intro sorted_nth_mono) auto
  with n l show ?thesis by simp
qed

lemma visible_keyframe_greatest:
  assumes s: "sorted (map (\<lambda>f. frame_number (st f)) (frames gpl))"
    and k: "k \<in> set (frames gpl)" and le: "frame_number (st k) \<le> t"
  shows "visible_keyframe st gpl t \<in> set (frames gpl)
       \<and> frame_number (st (visible_keyframe st gpl t)) \<le> t
       \<and> frame_number (st k) \<le> frame_number (st (visible_keyframe st gpl t))"
proof -
  let ?xs = "filter (\<lambda>f. frame_number (st f) \<le> t) (frames gpl)"
  have kin: "k \<in> set ?xs" using k le by simp
  then have ne: "?xs \<noteq> []" by (metis empty_iff empty_set)
  then have "last ?xs \<in> set ?xs" by (rule last_in_set)
  then have a: "last ?xs \<in> set (frames gpl)" and b: "frame_number (st (last ?xs)) \<le> t"
    by simp_all
  have "sorted (map (\<lambda>f. frame_number (st f)) ?xs)"
    using s by (rule sorted_filter)
  then have "frame_number (st k) \<le> frame_number (st (last ?xs))"
    using kin by (rule sorted_last_greatest)
  with a b show ?thesis by (simp add: visible_keyframe_def)
qed

lemma gp_compute_sorted:
  assumes ne: "frames gpl \<noteq> []"
    and sf: "sorted (map (\<lambda>f. frame_number (st f)) (frames gpl))"
    and stn: "sorted frame_numbers"
    and ex: "\<exists>t \<in> set frame_numbers. frame_number (st (frames gpl ! 0)) \<le> t"
  shows "gp_compute_list_of_frames_to_duplicate st gpl frame_numbers =
     Inr (map (\<lambda>t. (visible_keyframe st gpl t, t))
            (filter (\<lambda>t. frame_number (st (frames gpl ! 0)) \<le> t
                        \<and> t \<notin> (\<lambda>f. frame_number (st f)) ` set (frames gpl)) frame_numbers))"
proof -
  let ?a = "frame_number (st (frames gpl ! 0))"
  let ?i = "length (takeWhile (\<lambda>t. t < ?a) frame_numbers)"
  have sk: "skip_targets frame_numbers ?a 0 = Inr ?i"
    using ex by (subst skip_targets_eq) (auto simp: not_less)
  have dr: "drop ?i frame_numbers = filter (\<lambda>t. ?a \<le> t) frame_numbers"
    using stn by (simp add: filter_ge_sorted dropWhile_eq_drop)
  have inv: "\<forall>t \<in> set (drop ?i frame_numbers). frame_number (st (frames gpl ! 0)) \<le> t"
    unfolding dr by simp
  have j: "0 < length (frames gpl)" using ne by simp
  have fl: "filter (\<lambda>t. t \<notin> (\<lambda>f. frame_number (st f)) ` set (frames gpl)) (drop ?i frame_numbers)
      = filter (\<lambda>t. ?a \<le> t \<and> t \<notin> (\<lambda>f. frame_number (st f)) ` set (frames gpl)) frame_numbers"
    unfolding dr by (simp add: conj_commute)
  show ?thesis
    unfolding gp_compute_list_of_frames_to_duplicate_def sk
    using ne duplicate_loop_eq [OF sf stn j inv, of "[]"]
    by (simp add: fl visible_keyframe_def)
qed

lemma gp_compute_index_error_iff:
  assumes ne: "frames gpl \<noteq> []"
  shows "gp_compute_list_of_frames_to_duplicate st gpl frame_numbers = Inl IndexError
     \<longleftrightarrow> (\<forall>t \<in> set frame_numbers. t < frame_number (st (frames gpl ! 0)))"
proof (cases "\<forall>t \<in> set frame_numbers. t < frame_number (st (frames gpl ! 0))")
  case True
  then show ?thesis
    using ne by (simp add: gp_compute_list_of_frames_to_duplicate_def skip_targets_eq)
next
  case False
  have j: "0 < length (frames gpl)" using ne by simp
  let ?i = "length (takeWhile (\<lambda>t. t < frame_number (st (frames gpl ! 0))) frame_numbers)"
  obtain r where "duplicate_loop st (frames gpl) frame_numbers ?i 0 [] = Inr r"
    using duplicate_loop_returns [OF j] by blast
  with False ne show ?thesis
    by (simp add: gp_compute_list_of_frames_to_duplicate_def skip_targets_eq)
qed

text \<open>
  Claim C1, as far as it holds. For a layer without keyframes the result is the empty
  list. For a layer whose keyframes are in ascending order of frame number, as the host
  keeps them, and an ascending list of targets with at least one entry at or after the
  first keyframe, the function returns, in the order of the targets, one pair \<open>(f, t)\<close> for
  each target \<open>t\<close> that is at or after the first keyframe and is not the frame number of a
  keyframe of the layer, where \<open>f\<close> is the keyframe visible at \<open>t\<close>: a keyframe of the layer
  with the greatest frame number that is at most \<open>t\<close>. Targets before the first keyframe
  or on an existing keyframe give no pair.
\<close>

theorem gp_compute_list_of_frames_to_duplicate_spec:
  "(frames gpl = [] \<longrightarrow> gp_compute_list_of_frames_to_duplicate st gpl frame_numbers = Inr [])
   \<and> (frames gpl \<noteq> [] \<and> sorted (map (\<lambda>f. frame_number (st f)) (frames gpl))
        \<and> sorted frame_numbers
        \<and> (\<exists>t \<in> set frame_numbers. frame_number (st (frames gpl ! 0)) \<le> t) \<longrightarrow>
      (\<exists>res. gp_compute_list_of_frames_to_duplicate st gpl frame_numbers = Inr res
         \<and> res = map (\<lambda>t. (visible_keyframe st gpl t, t))
                   (filter (\<lambda>t. frame_number (st (frames gpl ! 0)) \<le> t
                               \<and> t \<notin> (\<lambda>f. frame_number (st f)) ` set (frames gpl))
                      frame_numbers)
         \<and> sorted (map snd res)
         \<and> (\<forall>(f, t) \<in> set res.
               f \<in> set (frames gpl) \<and> frame_number (st f) \<le> t
               \<and> (\<forall>k \<in> set (frames gpl).
                     frame_number (st k) \<le> t \<longrightarrow> frame_number (st k) \<le> frame_number (st f)))))"
proof (intro conjI impI)
  assume "frames gpl = []"
  then show "gp_compute_list_of_frames_to_duplicate st gpl frame_numbers = Inr []"
    by (simp add: gp_compute_list_of_frames_to_duplicate_def)
next
  let ?a = "frame_number (st (frames gpl ! 0))"
  let ?res = "map (\<lambda>t. (visible_keyframe st gpl t, t))
                   (filter (\<lambda>t. ?a \<le> t \<and> t \<notin> (\<lambda>f. frame_number (st f)) ` set (frames gpl))
                      frame_numbers)"
  assume h: "frames gpl \<noteq> [] \<and> sorted (map (\<lambda>f. frame_number (st f)) (frames gpl))
        \<and> sorted frame_numbers \<and> (\<exists>t \<in> set frame_numbers. ?a \<le> t)"
  then have r: "gp_compute_list_of_frames_to_duplicate st gpl frame_numbers = Inr ?res"
    by (intro gp_compute_sorted) simp_all
  have "map snd ?res = filter (\<lambda>t. ?a \<le> t \<and> t \<notin> (\<lambda>f. frame_number (st f)) ` set (frames gpl))
                      frame_numbers"
    by (simp add: comp_def)
  moreover have "sorted (filter (\<lambda>t. ?a \<le> t \<and> t \<notin> (\<lambda>f. frame_number (st f)) ` set (frames gpl))
                      frame_numbers)"
    using h sorted_filter [of "\<lambda>x. x" frame_numbers] by simp
  ultimately have s: "sorted (map snd ?res)" by simp
  have first: "frames gpl ! 0 \<in> set (frames gpl)" using h by simp
  have g: "\<forall>(f, t) \<in> set ?res.
               f \<in> set (frames gpl) \<and> frame_number (st f) \<le> t
               \<and> (\<forall>k \<in> set (frames gpl).
                     frame_number (st k) \<le> t \<longrightarrow> frame_number (st k) \<le> frame_number (st f))"
  proof (clarify, intro conjI ballI impI)
    fix f t assume m: "(f, t) \<in> set ?res"
    then have f: "f = visible_keyframe st gpl t" and t: "?a \<le> t" by auto
    from h have sf: "sorted (map (\<lambda>f. frame_number (st f)) (frames gpl))" by simp
    from visible_keyframe_greatest [OF sf first t] f
    show "f \<in> set (frames gpl)" and "frame_number (st f) \<le> t" by simp_all
    fix k assume "k \<in> set (frames gpl)" and "frame_number (st k) \<le> t"
    with visible_keyframe_greatest [OF sf] f
    show "frame_number (st k) \<le> frame_number (st f)" by simp
  qed
  from r s g
  show "\<exists>res. gp_compute_list_of_frames_to_duplicate st gpl frame_numbers = Inr res
         \<and> res = ?res \<and> sorted (map snd res)
         \<and> (\<forall>(f, t) \<in> set res.
               f \<in> set (frames gpl) \<and> frame_number (st f) \<le> t
               \<and> (\<forall>k \<in> set (frames gpl).
                     frame_number (st k) \<le> t \<longrightarrow> frame_number (st k) \<le> frame_number (st f)))"
    by blast
qed

theorem gp_compute_list_of_frames_to_duplicate_spec_witness:
  "frames one_layer \<noteq> []
   \<and> sorted (map (\<lambda>f. frame_number (frames_at_own_number f)) (frames one_layer))
   \<and> sorted [1, 2, 4, 5, 6, 7 :: int]
   \<and> frame_number (frames_at_own_number (frames one_layer ! 0)) \<le> 4
   \<and> gp_compute_list_of_frames_to_duplicate frames_at_own_number one_layer [1, 2, 4, 5, 6, 7]
       = Inr [(3, 4), (3, 5), (6, 7)]"
proof -
  have h: "frames one_layer \<noteq> []
      \<and> sorted (map (\<lambda>f. frame_number (frames_at_own_number f)) (frames one_layer))
      \<and> sorted [1, 2, 4, 5, 6, 7 :: int]
      \<and> (\<exists>t \<in> set [1, 2, 4, 5, 6, 7].
            frame_number (frames_at_own_number (frames one_layer ! 0)) \<le> t)"
    by (simp add: one_layer_def frames_at_own_number_def)
  have e: "map (\<lambda>t. (visible_keyframe frames_at_own_number one_layer t, t))
         (filter (\<lambda>t. frame_number (frames_at_own_number (frames one_layer ! 0)) \<le> t
                     \<and> t \<notin> (\<lambda>f. frame_number (frames_at_own_number f)) ` set (frames one_layer))
            [1, 2, 4, 5, 6, 7]) = [(3, 4), (3, 5), (6, 7)]"
    by (simp add: one_layer_def frames_at_own_number_def visible_keyframe_def)
  from gp_compute_list_of_frames_to_duplicate_spec
         [of one_layer frames_at_own_number "[1, 2, 4, 5, 6, 7]"] h
  have "gp_compute_list_of_frames_to_duplicate frames_at_own_number one_layer [1, 2, 4, 5, 6, 7]
       = Inr (map (\<lambda>t. (visible_keyframe frames_at_own_number one_layer t, t))
         (filter (\<lambda>t. frame_number (frames_at_own_number (frames one_layer ! 0)) \<le> t
                     \<and> t \<notin> (\<lambda>f. frame_number (frames_at_own_number f)) ` set (frames one_layer))
            [1, 2, 4, 5, 6, 7]))"
    by blast
  moreover have "frame_number (frames_at_own_number (frames one_layer ! 0)) \<le> 4"
    by (simp add: one_layer_def frames_at_own_number_def)
  ultimately show ?thesis using h e by simp
qed

text \<open>
  Without the order of the keyframes the claim fails: on a layer that lists the keyframe of
  frame 10 before the keyframe of frame 6, the target 11 is paired with the keyframe of
  frame 6, though the keyframe of frame 10 is the one with the greatest frame number that
  is at most 11.
\<close>

theorem gp_compute_list_of_frames_to_duplicate_unsorted_counterexample:
  "frames unsorted_layer \<noteq> [] \<and> sorted [7, 11 :: int]
   \<and> frame_number (frames_at_own_number (frames unsorted_layer ! 0)) \<le> 11
   \<and> gp_compute_list_of_frames_to_duplicate frames_at_own_number unsorted_layer [7, 11]
        = Inr [(6, 11)]
   \<and> 10 \<in> set (frames unsorted_layer)
   \<and> frame_number (frames_at_own_number 10) \<le> 11
   \<and> frame_number (frames_at_own_number 6) < frame_number (frames_at_own_number 10)"
  by (simp add: gp_compute_list_of_frames_to_duplicate_def unsorted_layer_def
      frames_at_own_number_def skip_targets.simps duplicate_loop.simps)

text \<open>
  Claim C9. For a layer with at least one keyframe, the function raises IndexError when
  \<open>frame_numbers\<close> is empty and whenever every entry is strictly below the frame number
  of the first keyframe: the skip loop runs past the end of the list. It raises in no
  other case.
\<close>

theorem gp_compute_list_of_frames_to_duplicate_index_error:
  assumes "frames gpl \<noteq> []"
  shows "(frame_numbers = [] \<longrightarrow>
            gp_compute_list_of_frames_to_duplicate st gpl frame_numbers = Inl IndexError)
       \<and> ((\<forall>t \<in> set frame_numbers. t < frame_number (st (frames gpl ! 0))) \<longrightarrow>
            gp_compute_list_of_frames_to_duplicate st gpl frame_numbers = Inl IndexError)
       \<and> (gp_compute_list_of_frames_to_duplicate st gpl frame_numbers = Inl IndexError \<longrightarrow>
            (\<forall>t \<in> set frame_numbers. t < frame_number (st (frames gpl ! 0))))"
  using assms gp_compute_index_error_iff [of gpl st frame_numbers] by auto

theorem gp_compute_list_of_frames_to_duplicate_index_error_witness:
  "frames one_layer \<noteq> []
   \<and> 1 < frame_number (frames_at_own_number (frames one_layer ! 0))
   \<and> 2 < frame_number (frames_at_own_number (frames one_layer ! 0))
   \<and> gp_compute_list_of_frames_to_duplicate frames_at_own_number one_layer [] = Inl IndexError
   \<and> gp_compute_list_of_frames_to_duplicate frames_at_own_number one_layer [1, 2] = Inl IndexError"
proof -
  have ne: "frames one_layer \<noteq> []" by (simp add: one_layer_def)
  have b: "\<forall>t \<in> set [1, 2]. t < frame_number (frames_at_own_number (frames one_layer ! 0))"
    by (simp add: one_layer_def frames_at_own_number_def)
  from gp_compute_list_of_frames_to_duplicate_index_error [OF ne, of "[]" frames_at_own_number]
  have e: "gp_compute_list_of_frames_to_duplicate frames_at_own_number one_layer [] = Inl IndexError"
    by simp
  from gp_compute_list_of_frames_to_duplicate_index_error [OF ne, of "[1, 2]" frames_at_own_number] b
  have f: "gp_compute_list_of_frames_to_duplicate frames_at_own_number one_layer [1, 2] = Inl IndexError"
    by blast
  from ne b e f show ?thesis by simp
qed



section \<open>Properties of are_similar_gp_materials\<close>

lemma list_all2_float_eq: "list_all2 float_eq a b \<longleftrightarrow> a = b \<and> no_nan a"
proof (induction a arbitrary: b)
  case Nil
  then show ?case by (auto simp: no_nan_def)
next
  case (Cons x a)
  then show ?case
    by (cases b) (auto simp: float_eq_def no_nan_def)
qed

lemma compare_attributes_all:
  "compare_attributes a b gp_material_comparison_attributes
     = Inr (same_compared_attributes a b \<and> no_nan (color a) \<and> no_nan (fill_color a))"
  by (auto simp: gp_material_comparison_attributes_def getattr_def same_compared_attributes_def
      list_all2_float_eq)

lemma are_similar_gp:
  "grease_pencil a = Some ga \<Longrightarrow> grease_pencil b = Some gb \<Longrightarrow>
   are_similar_gp_materials a b
     = Inr (same_compared_attributes ga gb \<and> no_nan (color ga) \<and> no_nan (fill_color ga))"
  by (simp add: are_similar_gp_materials_def is_grease_pencil_def compare_attributes_all)

text \<open>
  Claim C7, as far as it holds. \<open>are_similar_gp_materials\<close> raises ValueError if and only if
  one of the two materials is not a grease pencil material. Otherwise it returns whether
  the two materials agree on each of the ten attributes of
  \<open>gp_material_comparison_attributes\<close> and no component of the compared colour arrays is
  NaN. The function only reads its arguments: its embedding is a function of the two
  materials that returns nothing but the answer.
\<close>

theorem are_similar_gp_materials_spec:
  "length gp_material_comparison_attributes = 10
   \<and> (are_similar_gp_materials materialA materialB = Inl ValueError
        \<longleftrightarrow> \<not> is_grease_pencil materialA \<or> \<not> is_grease_pencil materialB)
   \<and> (is_grease_pencil materialA \<and> is_grease_pencil materialB \<longrightarrow>
        (\<exists>gpA gpB. grease_pencil materialA = Some gpA \<and> grease_pencil materialB = Some gpB
           \<and> are_similar_gp_materials materialA materialB
               = Inr (same_compared_attributes gpA gpB
                      \<and> no_nan (color gpA) \<and> no_nan (fill_color gpA))
           \<and> (same_compared_attributes gpA gpB \<longleftrightarrow>
                (\<forall>attr \<in> set gp_material_comparison_attributes.
                    getattr gpA attr = getattr gpB attr))))"
proof -
  have n: "length gp_material_comparison_attributes = 10"
    by (simp add: gp_material_comparison_attributes_def)
  have e: "are_similar_gp_materials materialA materialB = Inl ValueError
        \<longleftrightarrow> \<not> is_grease_pencil materialA \<or> \<not> is_grease_pencil materialB"
    by (auto simp: are_similar_gp_materials_def is_grease_pencil_def compare_attributes_all)
  have s: "\<And>gpA gpB. same_compared_attributes gpA gpB \<longleftrightarrow>
                (\<forall>attr \<in> set gp_material_comparison_attributes.
                    getattr gpA attr = getattr gpB attr)"
    by (simp add: gp_material_comparison_attributes_def getattr_def same_compared_attributes_def)
  show ?thesis using n e s are_similar_gp
    by (auto simp: is_grease_pencil_def)
qed

theorem are_similar_gp_materials_spec_witness:
  "is_grease_pencil (gp_material ''Pal/Line'' black_line)
   \<and> is_grease_pencil (gp_material ''Pal/Line.001'' black_line)
   \<and> \<not> is_grease_pencil (plain_material ''Wood'')
   \<and> are_similar_gp_materials (gp_material ''Pal/Line'' black_line)
        (gp_material ''Pal/Line.001'' black_line) = Inr True
   \<and> are_similar_gp_materials (gp_material ''Pal/Line'' black_line)
        (gp_material ''Pal/Line.001'' red_line) = Inr False
   \<and> are_similar_gp_materials (gp_material ''Pal/Line'' black_line)
        (plain_material ''Wood'') = Inl ValueError"
proof -
  have g: "is_grease_pencil (gp_material ''Pal/Line'' black_line)"
    "is_grease_pencil (gp_material ''Pal/Line.001'' black_line)"
    "is_grease_pencil (gp_material ''Pal/Line.001'' red_line)"
    and n: "\<not> is_grease_pencil (plain_material ''Wood'')"
    by (simp_all add: is_grease_pencil_def gp_material_def plain_material_def)
  have t: "same_compared_attributes black_line black_line"
    and f: "\<not> same_compared_attributes black_line red_line"
    and nn: "no_nan (color black_line)" "no_nan (fill_color black_line)"
    by (simp_all add: same_compared_attributes_def black_line_def red_line_def no_nan_def)
  have gp: "\<And>n s. grease_pencil (gp_material n s) = Some s"
    by (simp add: gp_material_def)
  from are_similar_gp_materials_spec
    [of "gp_material ''Pal/Line'' black_line" "gp_material ''Pal/Line.001'' black_line"] g t nn
  have a: "are_similar_gp_materials (gp_material ''Pal/Line'' black_line)
        (gp_material ''Pal/Line.001'' black_line) = Inr True"
    by (auto simp: gp)
  from are_similar_gp_materials_spec
    [of "gp_material ''Pal/Line'' black_line" "gp_material ''Pal/Line.001'' red_line"] g f
  have b: "are_similar_gp_materials (gp_material ''Pal/Line'' black_line)
        (gp_material ''Pal/Line.001'' red_line) = Inr False"
    by (auto simp: gp)
  from are_similar_gp_materials_spec
    [of "gp_material ''Pal/Line'' black_line" "plain_material ''Wood''"] n
  have c: "are_similar_gp_materials (gp_material ''Pal/Line'' black_line)
        (plain_material ''Wood'') = Inl ValueError"
    by blast
  from g n a b c show ?thesis by simp
qed

text \<open>
  The claim as it is worded fails on NaN: a material whose colour has a NaN component
  agrees with itself on all ten attributes, and is not similar to itself.
\<close>

theorem are_similar_gp_materials_nan_counterexample:
  "is_grease_pencil (gp_material ''Pal/Line'' nan_line)
   \<and> same_compared_attributes nan_line nan_line
   \<and> are_similar_gp_materials (gp_material ''Pal/Line'' nan_line)
        (gp_material ''Pal/Line'' nan_line) = Inr False"
  by (simp add: is_grease_pencil_def gp_material_def same_compared_attributes_def
      are_similar_gp_materials_def gp_material_comparison_attributes_def getattr_def
      nan_line_def black_line_def float_eq_def)

section \<open>Properties of the material_palette accessors\<close>

lemma index_of_Some:
  "index_of xs x = Some i \<Longrightarrow> i < length xs \<and> xs ! i = x \<and> (\<forall>j < i. xs ! j \<noteq> x)"
proof (induction xs arbitrary: i)
  case Nil
  then show ?case by simp
next
  case (Cons y ys)
  show ?case
  proof (cases "y = x")
    case True
    with Cons.prems show ?thesis by simp
  next
    case False
    with Cons.prems obtain k where k: "index_of ys x = Some k" "i = Suc k" by auto
    from Cons.IH [OF k(1)] False k(2) show ?thesis
      by (auto simp: nth_Cons split: nat.splits)
  qed
qed

lemma index_of_None: "index_of xs x = None \<longleftrightarrow> x \<notin> set xs"
  by (induction xs) auto

lemma index_of_nth: "distinct xs \<Longrightarrow> i < length xs \<Longrightarrow> index_of xs (xs ! i) = Some i"
proof (induction xs arbitrary: i)
  case Nil
  then show ?case by simp
next
  case (Cons y ys)
  then show ?case by (cases i) auto
qed

text \<open>
  Claim C10. \<open>set_material_palette_value\<close> stores the palette name found at the given
  index of the registry, not the index. \<open>get_material_palette_value\<close> returns the index
  of the stored name in the registry; when the stored name is absent from the registry it
  resets the stored name to the default palette id and returns 0, and it returns 0 when
  nothing is stored. The result of the getter is a valid index into a non-empty registry,
  and reading after writing index \<open>i\<close> gives \<open>i\<close> back.
\<close>

theorem material_palette_accessors_spec:
  "(0 \<le> index \<and> index < int (length material_palettes) \<longrightarrow>
      set_material_palette_value material_palettes self index
        = Inr (self(''material_palette_str'' \<mapsto> fst (material_palettes ! nat index))))
   \<and> (\<forall>stored. self ''material_palette_str'' = Some stored
          \<and> stored \<in> fst ` set material_palettes \<longrightarrow>
        (\<exists>i < length material_palettes.
            get_material_palette_value material_palettes self = (int i, self)
            \<and> fst (material_palettes ! i) = stored
            \<and> (\<forall>j < i. fst (material_palettes ! j) \<noteq> stored)))
   \<and> (\<forall>stored. self ''material_palette_str'' = Some stored
          \<and> stored \<notin> fst ` set material_palettes \<longrightarrow>
        get_material_palette_value material_palettes self
          = (0, self(''material_palette_str'' \<mapsto> DEFAULT_PALETTE_ID)))
   \<and> (self ''material_palette_str'' = None \<longrightarrow>
        get_material_palette_value material_palettes self = (0, self))
   \<and> (material_palettes \<noteq> [] \<longrightarrow>
        0 \<le> fst (get_material_palette_value material_palettes self)
        \<and> fst (get_material_palette_value material_palettes self) < int (length material_palettes))
   \<and> (distinct (map fst material_palettes) \<and> 0 \<le> index
        \<and> index < int (length material_palettes) \<longrightarrow>
        (\<exists>self'. set_material_palette_value material_palettes self index = Inr self'
           \<and> get_material_palette_value material_palettes self' = (index, self')))"
proof (intro conjI allI impI)
  assume r: "0 \<le> index \<and> index < int (length material_palettes)"
  then have "nat index < length material_palettes" by linarith
  with r show "set_material_palette_value material_palettes self index
        = Inr (self(''material_palette_str'' \<mapsto> fst (material_palettes ! nat index)))"
    by (simp add: set_material_palette_value_def list_index_def Let_def)
next
  fix stored
  assume a: "self ''material_palette_str'' = Some stored \<and> stored \<in> fst ` set material_palettes"
  then have "stored \<in> set (map fst material_palettes)" by simp
  then obtain i where i: "index_of (map fst material_palettes) stored = Some i"
    using index_of_None [of "map fst material_palettes" stored] by auto
  from index_of_Some [OF i] a i
  show "\<exists>i < length material_palettes.
            get_material_palette_value material_palettes self = (int i, self)
            \<and> fst (material_palettes ! i) = stored
            \<and> (\<forall>j < i. fst (material_palettes ! j) \<noteq> stored)"
    by (intro exI [of _ i]) (auto simp: get_material_palette_value_def)
next
  fix stored
  assume a: "self ''material_palette_str'' = Some stored \<and> stored \<notin> fst ` set material_palettes"
  then have "index_of (map fst material_palettes) stored = None"
    by (simp add: index_of_None)
  with a show "get_material_palette_value material_palettes self
          = (0, self(''material_palette_str'' \<mapsto> DEFAULT_PALETTE_ID))"
    by (simp add: get_material_palette_value_def)
next
  assume "self ''material_palette_str'' = None"
  then show "get_material_palette_value material_palettes self = (0, self)"
    by (simp add: get_material_palette_value_def)
next
  assume "material_palettes \<noteq> []"
  then show "0 \<le> fst (get_material_palette_value material_palettes self)"
    by (auto simp: get_material_palette_value_def split: option.splits)
next
  assume ne: "material_palettes \<noteq> []"
  show "fst (get_material_palette_value material_palettes self) < int (length material_palettes)"
    using ne index_of_Some [of "map fst material_palettes"]
    by (auto simp: get_material_palette_value_def split: option.splits)
next
  assume a: "distinct (map fst material_palettes) \<and> 0 \<le> index
        \<and> index < int (length material_palettes)"
  let ?self' = "self(''material_palette_str'' \<mapsto> fst (material_palettes ! nat index))"
  from a have n: "nat index < length material_palettes" by linarith
  have s: "set_material_palette_value material_palettes self index = Inr ?self'"
    using a n by (simp add: set_material_palette_value_def list_index_def Let_def)
  have "index_of (map fst material_palettes) (map fst material_palettes ! nat index) = Some (nat index)"
    using a n by (intro index_of_nth) auto
  then have "get_material_palette_value material_palettes ?self' = (index, ?self')"
    using a n by (simp add: get_material_palette_value_def)
  with s show "\<exists>self'. set_material_palette_value material_palettes self index = Inr self'
           \<and> get_material_palette_value material_palettes self' = (index, self')"
    by blast
qed

theorem material_palette_accessors_spec_witness:
  "(0 :: int) \<le> 1 \<and> 1 < int (length two_palettes) \<and> distinct (map fst two_palettes)
   \<and> set_material_palette_value two_palettes Map.empty 1
        = Inr [''material_palette_str'' \<mapsto> ''Day'']
   \<and> get_material_palette_value two_palettes [''material_palette_str'' \<mapsto> ''Day'']
        = (1, [''material_palette_str'' \<mapsto> ''Day''])
   \<and> get_material_palette_value two_palettes [''material_palette_str'' \<mapsto> ''Dusk'']
        = (0, [''material_palette_str'' \<mapsto> DEFAULT_PALETTE_ID])
   \<and> get_material_palette_value two_palettes Map.empty = (0, Map.empty)"
proof -
  have r: "(0 :: int) \<le> 1 \<and> 1 < int (length two_palettes)"
    and d: "distinct (map fst two_palettes)"
    and k: "fst (two_palettes ! nat 1) = ''Day''"
    and n: "''Dusk'' \<notin> fst ` set two_palettes"
    by (simp_all add: two_palettes_def)
  note t = material_palette_accessors_spec [of 1 two_palettes Map.empty]
  from t r k have a: "set_material_palette_value two_palettes Map.empty 1
        = Inr [''material_palette_str'' \<mapsto> ''Day'']"
    by simp
  from t r d a have b: "get_material_palette_value two_palettes [''material_palette_str'' \<mapsto> ''Day'']
        = (1, [''material_palette_str'' \<mapsto> ''Day''])"
    by auto
  from material_palette_accessors_spec [of 1 two_palettes "[''material_palette_str'' \<mapsto> ''Dusk'']"] n
  have c: "get_material_palette_value two_palettes [''material_palette_str'' \<mapsto> ''Dusk'']
        = (0, [''material_palette_str'' \<mapsto> DEFAULT_PALETTE_ID])"
    by simp
  from t have e: "get_material_palette_value two_palettes Map.empty = (0, Map.empty)"
    by simp
  from r d a b c e show ?thesis by simp
qed

section \<open>Properties of the operator callbacks\<close>














end
